theory Spec2Isabelle
  imports Complex_Main "HOL-Library.Sublist"
begin

section \<open>JavaScript values\<close>

text \<open>
  The public functions of \<^verbatim>\<open>componentize.js\<close> take arbitrary JavaScript values.
  The model keeps the kinds of value the module's checks tell apart: \<^verbatim>\<open>typeof\<close>,
  property reads along the prototype chain, and string length. A function is named by a
  string; an object is its own properties (in insertion order) and its prototype
  (\<open>JNull\<close> for none). Getters and proxies are not modelled: a property read runs no code.
\<close>

datatype jsval =
    JUndefined
  | JNull
  | JBoolean bool
  | JNumber int
  | JString string
  | JFunction string
  | JObject "(string \<times> jsval) list" jsval

text \<open>An exception is a value: \<^verbatim>\<open>new Error(message)\<close>, or the engine's own TypeError.\<close>

datatype error = Error string | TypeError

fun typeof :: "jsval \<Rightarrow> string" where
  "typeof JUndefined = ''undefined''"
| "typeof JNull = ''object''"
| "typeof (JBoolean b) = ''boolean''"
| "typeof (JNumber n) = ''number''"
| "typeof (JString s) = ''string''"
| "typeof (JFunction f) = ''function''"
| "typeof (JObject props proto) = ''object''"

text \<open>
  \<open>Object.prototype\<close>, the prototype of every object literal. Of its properties only
  \<open>constructor\<close> (the function \<open>Object\<close>) is among the keys this module reads.
\<close>

definition Object_prototype :: jsval where
  "Object_prototype = JObject [(''constructor'', JFunction ''Object'')] JNull"

definition object_literal :: "(string \<times> jsval) list \<Rightarrow> jsval" where
  "object_literal props = JObject props Object_prototype"

text \<open>
  \<open>v[key]\<close> for the keys the module reads (\<open>constructor\<close>, \<open>name\<close>, \<open>cssClass\<close>,
  \<open>getAttribute\<close>), with the standard prototypes unmodified. \<open>None\<close> is the TypeError of a
  property read on \<open>null\<close> or \<open>undefined\<close>. An object answers from its own properties, then
  from its prototype chain, which ends at \<open>null\<close>; a primitive answers from its wrapper's
  prototype.
\<close>

fun get :: "jsval \<Rightarrow> string \<Rightarrow> jsval option" where
  "get JUndefined key = None"
| "get JNull key = None"
| "get (JObject props proto) key =
     (case map_of props key of
        Some v \<Rightarrow> Some v
      | None \<Rightarrow> (if proto = JNull \<or> proto = JUndefined then Some JUndefined else get proto key))"
| "get (JBoolean b) key = Some (if key = ''constructor'' then JFunction ''Boolean'' else JUndefined)"
| "get (JNumber n) key = Some (if key = ''constructor'' then JFunction ''Number'' else JUndefined)"
| "get (JString s) key = Some (if key = ''constructor'' then JFunction ''String'' else JUndefined)"
| "get (JFunction f) key =
     Some (if key = ''constructor'' then JFunction ''Function''
           else if key = ''name'' then JString f else JUndefined)"

text \<open>The string of a string value and the name of a function value (else empty).\<close>

fun string_of :: "jsval \<Rightarrow> string" where
  "string_of (JString s) = s"
| "string_of v = []"

fun function_of :: "jsval \<Rightarrow> string" where
  "function_of (JFunction f) = f"
| "function_of v = []"

text \<open>\<open>v.length\<close> as the module uses it: on a value already known to be a string.\<close>

definition js_length :: "jsval \<Rightarrow> nat" where
  "js_length v = length (string_of v)"

section \<open>Strings and arrays\<close>

text \<open>\<open>String.prototype.indexOf\<close>: the first position where \<open>t\<close> starts in \<open>s\<close>, or \<open>-1\<close>.\<close>

fun String_indexOf :: "string \<Rightarrow> string \<Rightarrow> int" where
  "String_indexOf [] t = (if t = [] then 0 else -1)"
| "String_indexOf (c # s) t =
     (if prefix t (c # s) then 0
      else (let r = String_indexOf s t in if r = -1 then -1 else r + 1))"

text \<open>\<open>Array.prototype.indexOf\<close>: the first index holding \<open>x\<close>, or \<open>-1\<close>.\<close>

fun Array_indexOf :: "'a list \<Rightarrow> 'a \<Rightarrow> int" where
  "Array_indexOf [] x = -1"
| "Array_indexOf (y # ys) x =
     (if y = x then 0
      else (let r = Array_indexOf ys x in if r = -1 then -1 else r + 1))"

text \<open>\<open>xs.splice(i, 1)\<close> for an index inside the array: the array without position \<open>i\<close>.\<close>

definition splice1 :: "'a list \<Rightarrow> nat \<Rightarrow> 'a list" where
  "splice1 xs i = take i xs @ drop (Suc i) xs"

text \<open>
  \<open>s.split(',')\<close>: the pieces between commas; the empty string gives one empty piece.
  \<open>xs.join(',')\<close>: the pieces with a comma between neighbours; the empty array gives
  the empty string.
\<close>

fun split :: "string \<Rightarrow> string list" where
  "split [] = [[]]"
| "split (c # s) =
     (if c = CHR '','' then [] # split s
      else (case split s of w # ws \<Rightarrow> (c # w) # ws | [] \<Rightarrow> [[c]]))"

fun join :: "string list \<Rightarrow> string" where
  "join [] = []"
| "join [w] = w"
| "join (w # v # ws) = w @ CHR '','' # join (v # ws)"

section \<open>The registry and the page\<close>

text \<open>
  A registered component (\<open>configInternal\<close> in \<open>_register\<close>) and a created instance: the
  object the constructor built, with the two properties \<open>_upgradeElementInternal\<close> stores on
  it, \<open>element\<close> and \<open>_ComponentConfig\<close>.
\<close>

type_synonym elem = nat

record ComponentConfig =
  "constructor" :: string
  name :: string
  cssClass :: string

record createdComponent =
  element :: elem
  componentConfig :: ComponentConfig

text \<open>
  An element of the page, as far as the module touches it: its class list, its
  \<^verbatim>\<open>data-upgraded-components\<close> attribute (\<open>None\<close> when the attribute is absent) and the
  properties the module stores on it, by name.
\<close>

record HTMLElement =
  classList :: "string list"
  upgraded :: "string option"
  properties :: "string \<rightharpoonup> createdComponent"

text \<open>
  The module's two arrays, the elements by identity, and the elements attached to the
  document, in document order.
\<close>

record state =
  registeredComponents :: "ComponentConfig list"
  createdComponents :: "createdComponent list"
  elements :: "elem \<Rightarrow> HTMLElement"
  document :: "elem list"

text \<open>
  A call either returns or throws; both leave a state behind. \<open>Thrown e s\<close> is the state
  at the moment of the throw.
\<close>

datatype outcome = Normal state | Thrown error state

fun state_of :: "outcome \<Rightarrow> state" where
  "state_of (Normal s) = s"
| "state_of (Thrown e s) = s"

fun returns :: "outcome \<Rightarrow> bool" where
  "returns (Normal s) = True"
| "returns (Thrown e s) = False"

section \<open>Registration\<close>

definition MESSAGE_ERROR_CONFIG :: string where
  "MESSAGE_ERROR_CONFIG = ''Please, provide a valid data config for component.''"

definition already_registered_message :: "string \<Rightarrow> string" where
  "already_registered_message cls =
     ''The css class '' @ [CHR 0x22] @ cls @ [CHR 0x22] @ '' is already registered.''"

text \<open>
  \<open>_register\<close>. The validation is a chain of \<open>||\<close>, evaluated left to right; the property
  reads throw a TypeError on \<open>null\<close>, whose \<open>typeof\<close> is \<open>object\<close>. The \<open>forEach\<close> throws at
  the first registered component with the same class.
\<close>

definition register :: "jsval \<Rightarrow> state \<Rightarrow> outcome" where
  "register config s =
     (if typeof config = ''undefined'' then Thrown (Error MESSAGE_ERROR_CONFIG) s
      else if typeof config \<noteq> ''object'' then Thrown (Error MESSAGE_ERROR_CONFIG) s
      else case get config ''constructor'' of
        None \<Rightarrow> Thrown TypeError s
      | Some ctor \<Rightarrow>
        if typeof ctor \<noteq> ''function'' then Thrown (Error MESSAGE_ERROR_CONFIG) s
        else case get config ''name'' of
          None \<Rightarrow> Thrown TypeError s
        | Some nm \<Rightarrow>
          if typeof nm \<noteq> ''string'' then Thrown (Error MESSAGE_ERROR_CONFIG) s
          else if js_length nm = 0 then Thrown (Error MESSAGE_ERROR_CONFIG) s
          else case get config ''cssClass'' of
            None \<Rightarrow> Thrown TypeError s
          | Some cls \<Rightarrow>
            if typeof cls \<noteq> ''string'' then Thrown (Error MESSAGE_ERROR_CONFIG) s
            else if js_length cls = 0 then Thrown (Error MESSAGE_ERROR_CONFIG) s
            else
              (let configInternal =
                 \<lparr>constructor = function_of ctor, name = string_of nm, cssClass = string_of cls\<rparr>
               in if list_ex (\<lambda>registered. cssClass registered = cssClass configInternal)
                       (registeredComponents s)
                  then Thrown (Error (already_registered_message (cssClass configInternal))) s
                  else Normal (s\<lparr>registeredComponents := registeredComponents s @ [configInternal]\<rparr>)))"

section \<open>String to number\<close>

text \<open>
  \<open>ToNumber\<close> of a string, which \<open>_downgradeElement\<close> reaches through \<open>array < 2\<close>. The
  string is trimmed of white space; the empty string is \<open>0\<close>; then it must be \<open>Infinity\<close>
  with an optional sign, a \<open>0x\<close>, \<open>0o\<close> or \<open>0b\<close> integer, or a signed decimal literal with
  an optional fraction and exponent. Anything else is \<open>NaN\<close>. Characters are the code units
  below 256. The value is the literal's exact value: the engine rounds it to a double,
  which can change a comparison with \<open>2\<close> only for literals within \<open>2^-53\<close> of \<open>2\<close>.
\<close>

datatype number = NaN | NegativeInfinity | Finite rat | PositiveInfinity

definition StrWhiteSpaceChar :: "char \<Rightarrow> bool" where
  "StrWhiteSpaceChar c = (of_char c \<in> {9, 10, 11, 12, 13, 32, 160 :: nat})"

definition trim :: "string \<Rightarrow> string" where
  "trim s = rev (dropWhile StrWhiteSpaceChar (rev (dropWhile StrWhiteSpaceChar s)))"

definition digit_value :: "char \<Rightarrow> nat" where
  "digit_value c =
     (let n = of_char c :: nat in
      if 48 \<le> n \<and> n \<le> 57 then n - 48
      else if 97 \<le> n \<and> n \<le> 102 then n - 87
      else if 65 \<le> n \<and> n \<le> 70 then n - 55
      else 16)"

definition digits :: "nat \<Rightarrow> string \<Rightarrow> bool" where
  "digits base s = (s \<noteq> [] \<and> list_all (\<lambda>c. digit_value c < base) s)"

definition digits_value :: "nat \<Rightarrow> string \<Rightarrow> nat" where
  "digits_value base s = foldl (\<lambda>acc c. acc * base + digit_value c) 0 s"

text \<open>\<open>DecimalDigits\<close> with an optional fraction: \<open>12\<close>, \<open>12.\<close>, \<open>12.5\<close>, \<open>.5\<close>.\<close>

definition mantissa :: "string \<Rightarrow> rat option" where
  "mantissa m =
     (let ip = takeWhile (\<lambda>c. c \<noteq> CHR ''.'') m; rest = dropWhile (\<lambda>c. c \<noteq> CHR ''.'') m in
      if rest = [] then (if digits 10 ip then Some (of_nat (digits_value 10 ip)) else None)
      else
        (let fp = tl rest in
         if (digits 10 ip \<and> (fp = [] \<or> digits 10 fp)) \<or> (ip = [] \<and> digits 10 fp)
         then Some (of_nat (digits_value 10 ip) + of_nat (digits_value 10 fp) / 10 ^ length fp)
         else None))"

text \<open>\<open>SignedInteger\<close>: the exponent after \<open>e\<close> or \<open>E\<close>.\<close>

definition SignedInteger :: "string \<Rightarrow> int option" where
  "SignedInteger x =
     (case x of
        [] \<Rightarrow> None
      | c # ds \<Rightarrow>
          if c = CHR ''+'' then (if digits 10 ds then Some (int (digits_value 10 ds)) else None)
          else if c = CHR ''-'' then (if digits 10 ds then Some (- int (digits_value 10 ds)) else None)
          else if digits 10 x then Some (int (digits_value 10 x)) else None)"

definition StrUnsignedDecimalLiteral :: "string \<Rightarrow> number" where
  "StrUnsignedDecimalLiteral u =
     (if u = ''Infinity'' then PositiveInfinity
      else
        (let m = takeWhile (\<lambda>c. c \<noteq> CHR ''e'' \<and> c \<noteq> CHR ''E'') u;
             rest = dropWhile (\<lambda>c. c \<noteq> CHR ''e'' \<and> c \<noteq> CHR ''E'') u
         in case mantissa m of
              None \<Rightarrow> NaN
            | Some q \<Rightarrow>
                if rest = [] then Finite q
                else (case SignedInteger (tl rest) of
                        None \<Rightarrow> NaN
                      | Some x \<Rightarrow> Finite (if 0 \<le> x then q * 10 ^ nat x else q / 10 ^ nat (- x)))))"

definition negate :: "number \<Rightarrow> number" where
  "negate n =
     (case n of
        NaN \<Rightarrow> NaN
      | NegativeInfinity \<Rightarrow> PositiveInfinity
      | Finite q \<Rightarrow> Finite (- q)
      | PositiveInfinity \<Rightarrow> NegativeInfinity)"

definition NonDecimalIntegerLiteral :: "nat \<Rightarrow> string \<Rightarrow> number" where
  "NonDecimalIntegerLiteral base ds =
     (if digits base ds then Finite (of_nat (digits_value base ds)) else NaN)"

definition StringToNumber :: "string \<Rightarrow> number" where
  "StringToNumber str =
     (case trim str of
        [] \<Rightarrow> Finite 0
      | c # cs \<Rightarrow>
          if c = CHR ''+'' then StrUnsignedDecimalLiteral cs
          else if c = CHR ''-'' then negate (StrUnsignedDecimalLiteral cs)
          else if c = CHR ''0'' \<and> cs \<noteq> [] \<and> hd cs \<in> {CHR ''x'', CHR ''X''}
            then NonDecimalIntegerLiteral 16 (tl cs)
          else if c = CHR ''0'' \<and> cs \<noteq> [] \<and> hd cs \<in> {CHR ''o'', CHR ''O''}
            then NonDecimalIntegerLiteral 8 (tl cs)
          else if c = CHR ''0'' \<and> cs \<noteq> [] \<and> hd cs \<in> {CHR ''b'', CHR ''B''}
            then NonDecimalIntegerLiteral 2 (tl cs)
          else StrUnsignedDecimalLiteral (c # cs))"

text \<open>
  \<open>array < n\<close> for an array of strings and a number: the array becomes the string
  \<open>array.join(',')\<close>, that string becomes a number, and a \<open>NaN\<close> compares false.
\<close>

definition array_less_than :: "string list \<Rightarrow> rat \<Rightarrow> bool" where
  "array_less_than xs n =
     (case StringToNumber (join xs) of
        NaN \<Rightarrow> False
      | NegativeInfinity \<Rightarrow> True
      | Finite q \<Rightarrow> q < n
      | PositiveInfinity \<Rightarrow> False)"

section \<open>The element operations the module uses\<close>

definition getAttribute :: "elem \<Rightarrow> state \<Rightarrow> string option" where
  "getAttribute e s = upgraded (elements s e)"

definition setAttribute :: "elem \<Rightarrow> string \<Rightarrow> state \<Rightarrow> state" where
  "setAttribute e v s = s\<lparr>elements := (elements s)(e := (elements s e)\<lparr>upgraded := Some v\<rparr>)\<rparr>"

definition setProperty :: "elem \<Rightarrow> string \<Rightarrow> createdComponent \<Rightarrow> state \<Rightarrow> state" where
  "setProperty e key v s =
     s\<lparr>elements := (elements s)(e := (elements s e)\<lparr>properties := (properties (elements s e))(key \<mapsto> v)\<rparr>)\<rparr>"

definition deleteProperty :: "elem \<Rightarrow> string \<Rightarrow> state \<Rightarrow> state" where
  "deleteProperty e key s =
     s\<lparr>elements := (elements s)(e := (elements s e)\<lparr>properties := (properties (elements s e))(key := None)\<rparr>)\<rparr>"

text \<open>
  The two document queries, as the host's contract gives them for a class or a name that
  is a CSS identifier: the elements of the document carrying the class, and the elements
  whose attribute is present and contains the (non-empty) value; both in document order.
  Strings that make the concatenated selector invalid or compound are outside the model.
\<close>

definition querySelectorAll_class :: "string \<Rightarrow> state \<Rightarrow> elem list" where
  "querySelectorAll_class cls s = filter (\<lambda>e. cls \<in> set (classList (elements s e))) (document s)"

definition querySelectorAll_upgraded :: "string \<Rightarrow> state \<Rightarrow> elem list" where
  "querySelectorAll_upgraded v s =
     filter (\<lambda>e. case getAttribute e s of
                   None \<Rightarrow> False
                 | Some a \<Rightarrow> v \<noteq> [] \<and> String_indexOf a v \<noteq> -1) (document s)"

section \<open>Upgrade\<close>

text \<open>\<open>_isUpgradedElement\<close>: an absent or empty attribute is falsy; else a substring test.\<close>

definition isUpgradedElement :: "elem \<Rightarrow> string \<Rightarrow> state \<Rightarrow> bool" where
  "isUpgradedElement e componentName s =
     (case getAttribute e s of
        None \<Rightarrow> False
      | Some upgradeds \<Rightarrow>
          if upgradeds = [] then False else String_indexOf upgradeds componentName \<noteq> -1)"

text \<open>
  \<open>_getComponentList\<close>: for each class of the element, a pass over the created components
  that appends the name of each one created on this element and not yet in the list.
\<close>

definition getComponentList :: "elem \<Rightarrow> state \<Rightarrow> string list" where
  "getComponentList e s =
     foldl (\<lambda>componentList cssClass.
              foldl (\<lambda>componentList component.
                       if Array_indexOf componentList (name (componentConfig component)) = -1 \<and>
                          element component = e
                       then componentList @ [name (componentConfig component)]
                       else componentList)
                componentList (createdComponents s))
       [] (classList (elements s e))"

text \<open>
  \<open>_upgradeElementInternal\<close>. The constructor is taken to build a fresh object and to leave
  the registry, the element's classes, attribute and properties alone (the warning printed
  by the first guard is not part of the state). The component name is taken not to be the
  name of a member of the DOM element interface.
\<close>

definition upgradeElementInternal :: "elem \<Rightarrow> ComponentConfig \<Rightarrow> state \<Rightarrow> state" where
  "upgradeElementInternal e config s =
     (if cssClass config \<notin> set (classList (elements s e)) then s
      else if isUpgradedElement e (name config) s then s
      else
        (let componentList = getComponentList e s @ [name config];
             inst = \<lparr>element = e, componentConfig = config\<rparr>;
             s1 = setProperty e (name config) inst s;
             s2 = setAttribute e (join componentList) s1
         in s2\<lparr>createdComponents := createdComponents s2 @ [inst]\<rparr>))"

definition upgradeInternal :: "ComponentConfig \<Rightarrow> state \<Rightarrow> state" where
  "upgradeInternal registered s =
     fold (\<lambda>e. upgradeElementInternal e registered) (querySelectorAll_class (cssClass registered) s) s"

definition getRegisteredByClass :: "string \<Rightarrow> state \<Rightarrow> ComponentConfig option" where
  "getRegisteredByClass cls s = find (\<lambda>registered. cssClass registered = cls) (registeredComponents s)"

text \<open>
  The first argument of \<open>upgradeElement\<close> and \<open>downgradeElement\<close>: an \<open>HTMLElement\<close> of the
  page, or any other value.
\<close>

datatype target = Element elem | Value jsval

definition upgradeElement :: "target \<Rightarrow> jsval \<Rightarrow> state \<Rightarrow> state" where
  "upgradeElement t optionalCssClass s =
     (case t of
        Value v \<Rightarrow> s
      | Element e \<Rightarrow>
          if typeof optionalCssClass = ''string'' \<and> js_length optionalCssClass \<noteq> 0
          then (case getRegisteredByClass (string_of optionalCssClass) s of
                  None \<Rightarrow> s
                | Some registeredComponent \<Rightarrow> upgradeElementInternal e registeredComponent s)
          else fold (\<lambda>cssClass s'.
                       case getRegisteredByClass cssClass s' of
                         None \<Rightarrow> s'
                       | Some registeredComponent \<Rightarrow> upgradeElementInternal e registeredComponent s')
                 (classList (elements s e)) s)"

definition upgrade :: "jsval \<Rightarrow> state \<Rightarrow> state" where
  "upgrade cls s =
     fold (\<lambda>registered s'. if JString (cssClass registered) = cls then upgradeInternal registered s' else s')
       (registeredComponents s) s"

definition upgradeAll :: "state \<Rightarrow> state" where
  "upgradeAll s = fold upgradeInternal (registeredComponents s) s"

section \<open>Downgrade\<close>

text \<open>The loop of \<open>_downgradeElementInternal\<close>: remove the first matching instance.\<close>

fun remove_created :: "elem \<Rightarrow> string \<Rightarrow> createdComponent list \<Rightarrow> createdComponent list" where
  "remove_created e componentName [] = []"
| "remove_created e componentName (createdComponent # rest) =
     (if element createdComponent = e \<and> name (componentConfig createdComponent) = componentName
      then rest
      else createdComponent # remove_created e componentName rest)"

text \<open>
  \<open>_downgradeElementInternal\<close>. \<open>getAttribute\<close> gives \<open>null\<close> for an absent attribute, and
  \<open>null.split\<close> throws a TypeError before anything is changed.
\<close>

definition downgradeElementInternal :: "elem \<Rightarrow> string \<Rightarrow> state \<Rightarrow> outcome" where
  "downgradeElementInternal e componentName s =
     (case getAttribute e s of
        None \<Rightarrow> Thrown TypeError s
      | Some componentsAsString \<Rightarrow>
          (let componentList = split componentsAsString;
               componentIndex = Array_indexOf componentList componentName
           in if componentIndex = -1 then Normal s
              else
                (let s1 = setAttribute e (join (splice1 componentList (nat componentIndex))) s;
                     s2 = s1\<lparr>createdComponents := remove_created e componentName (createdComponents s1)\<rparr>
                 in Normal (deleteProperty e componentName s2))))"

text \<open>
  The same call with \<open>componentName\<close> undefined, as \<open>_downgrade\<close> makes it for a class that
  is not registered: \<open>indexOf(undefined)\<close> is \<open>-1\<close> in an array of strings.
\<close>

definition downgradeElementInternal_undefined :: "elem \<Rightarrow> state \<Rightarrow> outcome" where
  "downgradeElementInternal_undefined e s =
     (case getAttribute e s of None \<Rightarrow> Thrown TypeError s | Some componentsAsString \<Rightarrow> Normal s)"

text \<open>A loop whose body may throw: the first throw ends it.\<close>

fun forEach :: "('a \<Rightarrow> state \<Rightarrow> outcome) \<Rightarrow> 'a list \<Rightarrow> state \<Rightarrow> outcome" where
  "forEach f [] s = Normal s"
| "forEach f (x # xs) s =
     (case f x s of Normal s' \<Rightarrow> forEach f xs s' | Thrown err s' \<Rightarrow> Thrown err s')"

text \<open>
  \<open>_downgradeElement\<close>. Its first statement calls \<open>element.getAttribute\<close>, before the
  \<open>instanceof\<close> guard: a value without a callable \<open>getAttribute\<close> throws a TypeError there
  (a callable one is taken to change nothing). Without a class, the guard compares the
  array \<open>componentsAsString.split(',')\<close> with the number \<open>2\<close>.
\<close>

definition downgradeElement :: "target \<Rightarrow> jsval \<Rightarrow> state \<Rightarrow> outcome" where
  "downgradeElement t optionalCssClass s =
     (case t of
        Value v \<Rightarrow>
          (case get v ''getAttribute'' of
             None \<Rightarrow> Thrown TypeError s
           | Some f \<Rightarrow> if typeof f = ''function'' then Normal s else Thrown TypeError s)
      | Element e \<Rightarrow>
          (let componentsAsString = getAttribute e s in
           if typeof optionalCssClass = ''string'' \<and> js_length optionalCssClass \<noteq> 0
           then (case find (\<lambda>registered. cssClass registered = string_of optionalCssClass)
                        (registeredComponents s) of
                   None \<Rightarrow> Normal s
                 | Some registered \<Rightarrow> downgradeElementInternal e (name registered) s)
           else (case componentsAsString of
                   None \<Rightarrow> Normal s
                 | Some str \<Rightarrow>
                     if array_less_than (split str) 2 then Normal s
                     else forEach (downgradeElementInternal e) (split str) s)))"

text \<open>\<open>_downgrade\<close>: an unregistered class leaves \<open>componentName\<close> undefined.\<close>

definition downgrade :: "jsval \<Rightarrow> state \<Rightarrow> outcome" where
  "downgrade cls s =
     (if typeof cls \<noteq> ''string'' then Normal s
      else if js_length cls = 0 then Normal s
      else (case find (\<lambda>registered. cssClass registered = string_of cls) (registeredComponents s) of
              None \<Rightarrow>
                forEach downgradeElementInternal_undefined (querySelectorAll_upgraded ''undefined'' s) s
            | Some registered \<Rightarrow>
                forEach (\<lambda>e. downgradeElementInternal e (name registered))
                  (querySelectorAll_upgraded (name registered) s) s))"

text \<open>
  \<open>_downgradeAll\<close>: as many rounds as there were instances at the start, each on the
  instance then at position \<open>0\<close> (reading a property of \<open>undefined\<close> would be a TypeError).
\<close>

fun downgradeAll_loop :: "nat \<Rightarrow> state \<Rightarrow> outcome" where
  "downgradeAll_loop 0 s = Normal s"
| "downgradeAll_loop (Suc k) s =
     (case createdComponents s of
        [] \<Rightarrow> Thrown TypeError s
      | createdComponent # rest \<Rightarrow>
          (case downgradeElementInternal (element createdComponent)
                  (name (componentConfig createdComponent)) s of
             Normal s' \<Rightarrow> downgradeAll_loop k s'
           | Thrown err s' \<Rightarrow> Thrown err s'))"

definition downgradeAll :: "state \<Rightarrow> outcome" where
  "downgradeAll s = downgradeAll_loop (length (createdComponents s)) s"

definition getAllRegistered :: "state \<Rightarrow> ComponentConfig list" where
  "getAllRegistered s = registeredComponents s"

definition getAllCreated :: "state \<Rightarrow> createdComponent list" where
  "getAllCreated s = createdComponents s"

section \<open>Vocabulary of the properties\<close>

text \<open>A freshly loaded page: nothing registered, nothing created, no element marked.\<close>

definition blank :: "string list \<Rightarrow> HTMLElement" where
  "blank classes = \<lparr>classList = classes, upgraded = None, properties = Map.empty\<rparr>"

definition page :: "(elem \<Rightarrow> string list) \<Rightarrow> elem list \<Rightarrow> state" where
  "page classes doc =
     \<lparr>registeredComponents = [], createdComponents = [],
      elements = (\<lambda>e. blank (classes e)), document = doc\<rparr>"

text \<open>The registration the demo component makes (\<open>Componentize.register({...})\<close>).\<close>

definition ClockComponent :: jsval where
  "ClockComponent =
     object_literal [(''name'', JString ''ClockComponent''),
                     (''cssClass'', JString ''clock-component''),
                     (''constructor'', JFunction ''ClockComponent'')]"


text \<open>Two components, the name of one a substring of the name of the other.\<close>

definition Clock :: jsval where
  "Clock = object_literal [(''name'', JString ''Clock''), (''cssClass'', JString ''clock''),
                           (''constructor'', JFunction ''Clock'')]"

definition ClockPro :: jsval where
  "ClockPro = object_literal [(''name'', JString ''ClockPro''), (''cssClass'', JString ''pro''),
                              (''constructor'', JFunction ''ClockPro'')]"

text \<open>A component whose name contains a comma, upgraded on the one element of its page.\<close>

definition TabsPanels :: jsval where
  "TabsPanels = object_literal [(''name'', JString ''Tabs,Panels''), (''cssClass'', JString ''tabs''),
                                (''constructor'', JFunction ''Tabs'')]"




definition tabs_config :: ComponentConfig where
  "tabs_config = \<lparr>constructor = ''Tabs'', name = ''Tabs,Panels'', cssClass = ''tabs''\<rparr>"

text \<open>
  A component definition as the interface documents it: an object whose \<open>constructor\<close> is
  the function \<open>f\<close>, whose \<open>name\<close> is the non-empty string \<open>n\<close> and whose \<open>cssClass\<close> is the
  non-empty string \<open>c\<close>.
\<close>

definition is_definition :: "jsval \<Rightarrow> string \<Rightarrow> string \<Rightarrow> string \<Rightarrow> bool" where
  "is_definition config f n c =
     (typeof config = ''object'' \<and>
      get config ''constructor'' = Some (JFunction f) \<and>
      get config ''name'' = Some (JString n) \<and> n \<noteq> [] \<and>
      get config ''cssClass'' = Some (JString c) \<and> c \<noteq> [])"

text \<open>
  The instances of a pair, found as the module finds them (by element and component
  name); the names of the instances created on an element, in creation order; and the
  element's marker list, the names its attribute records (none when it is absent or empty).
\<close>

definition instances_of :: "elem \<Rightarrow> string \<Rightarrow> state \<Rightarrow> createdComponent list" where
  "instances_of e n s =
     filter (\<lambda>c. element c = e \<and> name (componentConfig c) = n) (createdComponents s)"

definition names_on :: "elem \<Rightarrow> state \<Rightarrow> string list" where
  "names_on e s =
     map (\<lambda>c. name (componentConfig c)) (filter (\<lambda>c. element c = e) (createdComponents s))"

definition marker_list :: "elem \<Rightarrow> state \<Rightarrow> string list" where
  "marker_list e s =
     (case getAttribute e s of None \<Rightarrow> [] | Some a \<Rightarrow> if a = [] then [] else split a)"

text \<open>No registered name contains the separator of the marker list.\<close>

definition comma_free :: "state \<Rightarrow> bool" where
  "comma_free s = (\<forall>r \<in> set (registeredComponents s). CHR '','' \<notin> set (name r))"

text \<open>
  The bookkeeping invariant: registered names and classes are non-empty; every instance
  comes from a registered component; on each element the instances have distinct names,
  the attribute (when present) is the comma-joined list of those names, an element without
  the attribute has no instance, and a property is stored only under the name of an
  instance of the element.
\<close>

definition invariant :: "state \<Rightarrow> bool" where
  "invariant s =
     ((\<forall>r \<in> set (registeredComponents s). name r \<noteq> [] \<and> cssClass r \<noteq> []) \<and>
      (\<forall>c \<in> set (createdComponents s). componentConfig c \<in> set (registeredComponents s)) \<and>
      (\<forall>e. distinct (names_on e s)) \<and>
      (\<forall>e. getAttribute e s = None \<longrightarrow> names_on e s = []) \<and>
      (\<forall>e a. getAttribute e s = Some a \<longrightarrow> a = join (names_on e s)) \<and>
      (\<forall>e k. properties (elements s e) k \<noteq> None \<longrightarrow> k \<in> set (names_on e s)))"



section \<open>Strings and arrays: facts\<close>

lemma split_not_Nil: "split s \<noteq> []"
  by (induction s) (auto split: list.splits)

lemma join_Cons_Cons: "join ((c # w) # ws) = c # join (w # ws)"
  by (cases ws) auto

lemma join_split: "join (split s) = s"
proof (induction s)
  case Nil
  show ?case by simp
next
  case (Cons c s)
  obtain w ws where sp: "split s = w # ws"
    using split_not_Nil [of s] by (cases "split s") auto
  show ?case
  proof (cases "c = CHR '',''")
    case True
    with Cons sp show ?thesis by simp
  next
    case False
    with Cons sp show ?thesis by (simp add: join_Cons_Cons)
  qed
qed

lemma split_append_comma_free:
  "CHR '','' \<notin> set w \<Longrightarrow> split (w @ s) = (w @ hd (split s)) # tl (split s)"
proof (induction w)
  case Nil
  then show ?case using split_not_Nil [of s] by (cases "split s") auto
next
  case (Cons c w)
  then show ?case by auto
qed

lemma split_comma_free: "CHR '','' \<notin> set w \<Longrightarrow> split w = [w]"
  using split_append_comma_free [of w "[]"] by simp

lemma split_join:
  "ws \<noteq> [] \<Longrightarrow> \<forall>w\<in>set ws. CHR '','' \<notin> set w \<Longrightarrow> split (join ws) = ws"
proof (induction ws rule: join.induct)
  case 1
  then show ?case by simp
next
  case (2 w)
  then show ?case by (simp add: split_comma_free)
next
  case (3 w v ws)
  then show ?case by (simp add: split_append_comma_free)
qed



lemma sublist_join: "w \<in> set ws \<Longrightarrow> sublist w (join ws)"
proof (induction ws rule: join.induct)
  case 1
  then show ?case by simp
next
  case (2 v)
  then show ?case by simp
next
  case (3 u v ws)
  show ?case
  proof (cases "w = u")
    case True
    then show ?thesis by (simp add: sublist_append_rightI)
  next
    case False
    with 3 have "sublist w (join (v # ws))" by simp
    then have "sublist w ((u @ [CHR '','']) @ join (v # ws))"
      by (simp only: sublist_append) simp
    then show ?thesis by simp
  qed
qed

lemma sublist_split: "w \<in> set (split a) \<Longrightarrow> sublist w a"
  using sublist_join [of w "split a"] by (simp add: join_split)

lemma join_eq_Nil: "join ws = [] \<longleftrightarrow> ws = [] \<or> ws = [[]]"
  by (induction ws rule: join.induct) auto

lemma Array_indexOf_ge: "- 1 \<le> Array_indexOf xs x"
  by (induction xs) (auto simp: Let_def)

lemma Array_indexOf_absent: "Array_indexOf xs x = -1 \<longleftrightarrow> x \<notin> set xs"
proof (induction xs)
  case Nil
  show ?case by simp
next
  case (Cons y ys)
  have "Array_indexOf ys x + 1 \<noteq> -1" using Array_indexOf_ge [of ys x] by arith
  with Cons show ?case by (auto simp: Let_def)
qed

lemma splice1_indexOf: "x \<in> set xs \<Longrightarrow> splice1 xs (nat (Array_indexOf xs x)) = remove1 x xs"
proof (induction xs)
  case Nil
  then show ?case by simp
next
  case (Cons y ys)
  show ?case
  proof (cases "y = x")
    case True
    then show ?thesis by (simp add: splice1_def)
  next
    case False
    with Cons.prems have in_ys: "x \<in> set ys" by simp
    then have "Array_indexOf ys x \<noteq> -1" by (simp add: Array_indexOf_absent)
    with Array_indexOf_ge [of ys x] have nonneg: "0 \<le> Array_indexOf ys x" by arith
    then have "nat (Array_indexOf ys x + 1) = Suc (nat (Array_indexOf ys x))" by arith
    with False Cons.IH [OF in_ys] \<open>Array_indexOf ys x \<noteq> -1\<close> show ?thesis
      by (simp add: splice1_def Let_def)
  qed
qed

section \<open>Registration: facts\<close>

lemma register_definition:
  assumes "is_definition config f n c"
  shows "register config s =
           (if list_ex (\<lambda>r. cssClass r = c) (registeredComponents s)
            then Thrown (Error (already_registered_message c)) s
            else Normal (s\<lparr>registeredComponents :=
                             registeredComponents s @ [\<lparr>constructor = f, name = n, cssClass = c\<rparr>]\<rparr>))"
  using assms by (simp add: register_def is_definition_def js_length_def Let_def)

lemma ClockComponent_is_definition:
  "is_definition ClockComponent ''ClockComponent'' ''ClockComponent'' ''clock-component''"
  by (simp add: is_definition_def ClockComponent_def object_literal_def Object_prototype_def)

text \<open>
  The validation does reject a field that is read with the wrong type or empty, a
  non-object, and (with a TypeError instead of the configuration error) \<open>null\<close>.
\<close>

lemma register_invalid_field:
  assumes "get config ''constructor'' = Some ctor"
    and "get config ''name'' = Some nm"
    and "get config ''cssClass'' = Some cls"
    and "typeof ctor \<noteq> ''function'' \<or> typeof nm \<noteq> ''string'' \<or> nm = JString [] \<or>
         typeof cls \<noteq> ''string'' \<or> cls = JString []"
  shows "register config s = Thrown (Error MESSAGE_ERROR_CONFIG) s"
  using assms by (auto simp: register_def js_length_def)

lemma register_not_object:
  "typeof config \<noteq> ''object'' \<Longrightarrow> register config s = Thrown (Error MESSAGE_ERROR_CONFIG) s"
  by (simp add: register_def)

lemma register_null: "register JNull s = Thrown TypeError s"
  by (simp add: register_def)

lemma typeof_function: "typeof v = ''function'' \<Longrightarrow> \<exists>f. v = JFunction f"
  by (cases v) auto

lemma typeof_string: "typeof v = ''string'' \<Longrightarrow> \<exists>x. v = JString x"
  by (cases v) auto

text \<open>Only a definition is ever registered.\<close>

lemma register_Normal_is_definition:
  assumes "register config s = Normal s'"
  shows "\<exists>f n c. is_definition config f n c"
proof -
  from assms obtain ctor nm cls where
    "typeof config = ''object''"
    "get config ''constructor'' = Some ctor" "typeof ctor = ''function''"
    "get config ''name'' = Some nm" "typeof nm = ''string''" "js_length nm \<noteq> 0"
    "get config ''cssClass'' = Some cls" "typeof cls = ''string''" "js_length cls \<noteq> 0"
    by (auto simp: register_def Let_def split: if_splits option.splits)
  then show ?thesis
    by (auto simp: is_definition_def js_length_def dest!: typeof_function typeof_string)
qed

text \<open>
  C3. From any registry state, when two definitions share a \<open>cssClass\<close>, registering the
  second after the first throws the error whose message names that class, and the table
  of registered components is what it was before the call: the second is not appended.
  (Whether the first registration succeeded or was itself refused, the class is in the
  table by then.)
\<close>

theorem register_same_cssClass_rejected:
  assumes "is_definition d1 f1 n1 c" and "is_definition d2 f2 n2 c"
  shows "register d2 (state_of (register d1 s)) =
           Thrown (Error (already_registered_message c)) (state_of (register d1 s)) \<and>
         registeredComponents (state_of (register d2 (state_of (register d1 s)))) =
           registeredComponents (state_of (register d1 s))"
proof -
  let ?s1 = "state_of (register d1 s)"
  have "list_ex (\<lambda>r. cssClass r = c) (registeredComponents ?s1)"
    by (simp add: register_definition [OF assms(1)] list_ex_iff)
  then have "register d2 ?s1 = Thrown (Error (already_registered_message c)) ?s1"
    by (simp add: register_definition [OF assms(2)])
  then show ?thesis by simp
qed

theorem register_same_cssClass_rejected_witness:
  "register (object_literal [(''name'', JString ''Other''), (''cssClass'', JString ''clock-component''),
                             (''constructor'', JFunction ''Other'')])
     (state_of (register ClockComponent (page (\<lambda>e. []) []))) =
   Thrown (Error (already_registered_message ''clock-component''))
     (state_of (register ClockComponent (page (\<lambda>e. []) []))) \<and>
   length (registeredComponents (state_of (register ClockComponent (page (\<lambda>e. []) [])))) = 1"
proof -
  have d1: "is_definition ClockComponent ''ClockComponent'' ''ClockComponent'' ''clock-component''"
    by (rule ClockComponent_is_definition)
  have d2: "is_definition (object_literal [(''name'', JString ''Other''), (''cssClass'', JString ''clock-component''),
                             (''constructor'', JFunction ''Other'')]) ''Other'' ''Other'' ''clock-component''"
    by (simp add: is_definition_def object_literal_def Object_prototype_def)
  have "length (registeredComponents (state_of (register ClockComponent (page (\<lambda>e. []) [])))) = 1"
    by (simp add: register_definition [OF d1] page_def)
  with register_same_cssClass_rejected [OF d1 d2, of "page (\<lambda>e. []) []"] show ?thesis by simp
qed

text \<open>
  C7. The claim fails on the code at an object literal without a \<open>constructor\<close> field of
  its own: the read \<open>config['constructor']\<close> finds \<open>Object.prototype.constructor\<close>, a
  function, so the validation passes and the component is registered with the constructor
  \<open>Object\<close>. The table grows from empty to one entry.
\<close>

theorem register_accepts_missing_constructor:
  "register (object_literal [(''name'', JString ''ClockComponent''),
                             (''cssClass'', JString ''clock-component'')]) (page (\<lambda>e. []) []) =
   Normal ((page (\<lambda>e. []) [])\<lparr>registeredComponents :=
             [\<lparr>constructor = ''Object'', name = ''ClockComponent'', cssClass = ''clock-component''\<rparr>]\<rparr>)"
  by (simp add: register_def object_literal_def Object_prototype_def js_length_def page_def)

section \<open>Evaluating the module on concrete pages\<close>

lemmas eval_defs =
  register_def object_literal_def Object_prototype_def js_length_def page_def blank_def
  ClockComponent_def upgradeAll_def upgradeInternal_def upgradeElementInternal_def
  querySelectorAll_class_def isUpgradedElement_def getAttribute_def setAttribute_def
  setProperty_def deleteProperty_def getComponentList_def upgradeElement_def
  getRegisteredByClass_def downgradeElement_def downgradeElementInternal_def
  array_less_than_def StringToNumber_def trim_def StrWhiteSpaceChar_def
  StrUnsignedDecimalLiteral_def mantissa_def digits_def digit_value_def splice1_def
  marker_list_def Let_def

lemma downgradeElementInternal_absent:
  "getAttribute e s = None \<Longrightarrow> downgradeElementInternal e n s = Thrown TypeError s"
  by (simp add: downgradeElementInternal_def)

text \<open>
  C4. The claim fails on the code: on an element without the marker attribute,
  \<open>downgradeElement(element, 'clock-component')\<close> for the registered clock component
  reaches \<open>_downgradeElementInternal\<close>, whose \<open>null.split(',')\<close> throws a TypeError. The state
  is unchanged, but the call does not return normally.
\<close>

theorem downgradeElement_absent_marker_throws:
  "downgradeElement (Element 0) (JString ''clock-component'')
     (state_of (register ClockComponent (page (\<lambda>e. [''clock-component'']) [0]))) =
   Thrown TypeError (state_of (register ClockComponent (page (\<lambda>e. [''clock-component'']) [0]))) \<and>
   downgradeElementInternal 0 ''ClockComponent'' (page (\<lambda>e. [''clock-component'']) [0]) =
   Thrown TypeError (page (\<lambda>e. [''clock-component'']) [0])"
  by (simp add: eval_defs)

text \<open>
  C5. The claim fails on the code: \<open>downgradeElement\<close> calls \<open>element.getAttribute\<close> before
  its \<open>instanceof\<close> guard, so \<open>null\<close>, a number and a plain object each throw a TypeError, in
  every state and whatever the second argument.
\<close>

theorem downgradeElement_non_element_throws:
  "downgradeElement (Value JNull) optionalCssClass s = Thrown TypeError s \<and>
   downgradeElement (Value (JNumber 5)) optionalCssClass s = Thrown TypeError s \<and>
   downgradeElement (Value (object_literal [])) optionalCssClass s = Thrown TypeError s"
  by (simp add: downgradeElement_def object_literal_def Object_prototype_def)


text \<open>
  C8. The claim fails on the code when one name is a substring of the other and the
  longer one is processed first: with the classes in the order \<open>pro clock\<close>,
  \<open>upgradeElement(element)\<close> creates the \<open>ClockPro\<close> instance only, since
  \<open>_isUpgradedElement\<close> finds \<open>Clock\<close> inside the attribute \<open>ClockPro\<close>. With the classes in
  the order \<open>clock pro\<close> both instances are created: the result depends on the order.
\<close>

theorem upgradeElement_substring_name_skipped:
  "createdComponents (upgradeElement (Element 0) JUndefined
     (state_of (register ClockPro (state_of (register Clock (page (\<lambda>e. [''pro'', ''clock'']) [0])))))) =
     [\<lparr>element = 0, componentConfig = \<lparr>constructor = ''ClockPro'', name = ''ClockPro'', cssClass = ''pro''\<rparr>\<rparr>] \<and>
   marker_list 0 (upgradeElement (Element 0) JUndefined
     (state_of (register ClockPro (state_of (register Clock (page (\<lambda>e. [''pro'', ''clock'']) [0])))))) =
     [''ClockPro''] \<and>
   length (createdComponents (upgradeElement (Element 0) JUndefined
     (state_of (register ClockPro (state_of (register Clock (page (\<lambda>e. [''clock'', ''pro'']) [0]))))))) = 2 \<and>
   marker_list 0 (upgradeElement (Element 0) JUndefined
     (state_of (register ClockPro (state_of (register Clock (page (\<lambda>e. [''clock'', ''pro'']) [0])))))) =
     [''Clock'', ''ClockPro'']"
  by (simp add: eval_defs Clock_def ClockPro_def)

section \<open>The state after each element operation\<close>

lemma getAttribute_setAttribute [simp]:
  "getAttribute e (setAttribute e' v s) = (if e = e' then Some v else getAttribute e s)"
  by (simp add: getAttribute_def setAttribute_def)

lemma getAttribute_setProperty [simp]: "getAttribute e (setProperty e' k v s) = getAttribute e s"
  by (simp add: getAttribute_def setProperty_def)

lemma getAttribute_deleteProperty [simp]: "getAttribute e (deleteProperty e' k s) = getAttribute e s"
  by (simp add: getAttribute_def deleteProperty_def)

lemma getAttribute_createdComponents [simp]:
  "getAttribute e (s\<lparr>createdComponents := cs\<rparr>) = getAttribute e s"
  by (simp add: getAttribute_def)

lemma createdComponents_setAttribute [simp]:
  "createdComponents (setAttribute e v s) = createdComponents s"
  by (simp add: setAttribute_def)

lemma createdComponents_setProperty [simp]:
  "createdComponents (setProperty e k v s) = createdComponents s"
  by (simp add: setProperty_def)

lemma createdComponents_deleteProperty [simp]:
  "createdComponents (deleteProperty e k s) = createdComponents s"
  by (simp add: deleteProperty_def)

lemma registeredComponents_setAttribute [simp]:
  "registeredComponents (setAttribute e v s) = registeredComponents s"
  by (simp add: setAttribute_def)

lemma registeredComponents_setProperty [simp]:
  "registeredComponents (setProperty e k v s) = registeredComponents s"
  by (simp add: setProperty_def)

lemma registeredComponents_deleteProperty [simp]:
  "registeredComponents (deleteProperty e k s) = registeredComponents s"
  by (simp add: deleteProperty_def)

lemma downgradeElementInternal_present:
  assumes "getAttribute e s = Some a"
  shows "downgradeElementInternal e n s =
           (if n \<in> set (split a)
            then Normal (deleteProperty e n
                   ((setAttribute e (join (remove1 n (split a))) s)
                      \<lparr>createdComponents := remove_created e n (createdComponents s)\<rparr>))
            else Normal s)"
  using assms
  by (simp add: downgradeElementInternal_def Let_def Array_indexOf_absent splice1_indexOf)


lemma forEach_preserves:
  assumes step: "\<And>x s. P s \<Longrightarrow> P (state_of (f x s))"
  shows "P s \<Longrightarrow> P (state_of (forEach f xs s))"
proof (induction xs arbitrary: s)
  case Nil
  then show ?case by simp
next
  case (Cons x xs)
  show ?case
  proof (cases "f x s")
    case (Normal s')
    with step [OF Cons.prems, of x] have "P s'" by simp
    with Cons.IH Normal show ?thesis by simp
  next
    case (Thrown err s')
    with step [OF Cons.prems, of x] show ?thesis by simp
  qed
qed

lemma downgradeAll_loop_preserves:
  assumes step: "\<And>e n s. P s \<Longrightarrow> P (state_of (downgradeElementInternal e n s))"
  shows "P s \<Longrightarrow> P (state_of (downgradeAll_loop k s))"
proof (induction k arbitrary: s)
  case 0
  then show ?case by simp
next
  case (Suc k)
  show ?case
  proof (cases "createdComponents s")
    case Nil
    with Suc.prems show ?thesis by simp
  next
    case (Cons c rest)
    show ?thesis
    proof (cases "downgradeElementInternal (element c) (name (componentConfig c)) s")
      case (Normal s')
      with step [OF Suc.prems, of "element c" "name (componentConfig c)"] have "P s'" by simp
      with Suc.IH Normal Cons show ?thesis by simp
    next
      case (Thrown err s')
      with step [OF Suc.prems, of "element c" "name (componentConfig c)"] Cons show ?thesis by simp
    qed
  qed
qed

lemma downgradeElementInternal_undefined_state [simp]:
  "state_of (downgradeElementInternal_undefined e s) = s"
  by (simp add: downgradeElementInternal_undefined_def split: option.splits)




lemma upgradeElementInternal_performed:
  assumes "cssClass config \<in> set (classList (elements s e))"
    and "\<not> isUpgradedElement e (name config) s"
  shows "upgradeElementInternal e config s =
           (setAttribute e (join (getComponentList e s @ [name config]))
              (setProperty e (name config) \<lparr>element = e, componentConfig = config\<rparr> s))
             \<lparr>createdComponents := createdComponents s @ [\<lparr>element = e, componentConfig = config\<rparr>]\<rparr>"
  using assms by (simp add: upgradeElementInternal_def Let_def)

lemma upgradeElementInternal_skipped:
  assumes "cssClass config \<notin> set (classList (elements s e)) \<or> isUpgradedElement e (name config) s"
  shows "upgradeElementInternal e config s = s"
  using assms by (auto simp: upgradeElementInternal_def)


lemma upgradeElementInternal_sets_attribute:
  assumes "createdComponents (upgradeElementInternal e config s) \<noteq> createdComponents s"
  shows "getAttribute e (upgradeElementInternal e config s) =
           Some (join (getComponentList e s @ [name config]))"
proof (cases "cssClass config \<notin> set (classList (elements s e)) \<or> isUpgradedElement e (name config) s")
  case True
  with assms show ?thesis by (simp add: upgradeElementInternal_skipped)
next
  case False
  then show ?thesis by (simp add: upgradeElementInternal_performed)
qed


section \<open>The bookkeeping invariant\<close>

subsection \<open>The component list of an element\<close>

lemma names_on_setAttribute [simp]: "names_on e (setAttribute e' v s) = names_on e s"
  by (simp add: names_on_def)

lemma names_on_setProperty [simp]: "names_on e (setProperty e' k v s) = names_on e s"
  by (simp add: names_on_def)

lemma names_on_deleteProperty [simp]: "names_on e (deleteProperty e' k s) = names_on e s"
  by (simp add: names_on_def)

lemma names_on_registeredComponents [simp]:
  "names_on e (s\<lparr>registeredComponents := r\<rparr>) = names_on e s"
  by (simp add: names_on_def)

lemma names_on_append:
  "names_on e (s\<lparr>createdComponents := createdComponents s @ [c]\<rparr>) =
     names_on e s @ (if element c = e then [name (componentConfig c)] else [])"
  by (simp add: names_on_def)





subsection \<open>Upgrades keep the invariant\<close>

lemma invariant_name_nonempty:
  assumes "invariant s" and "n \<in> set (names_on e s)"
  shows "n \<noteq> []"
proof -
  from assms(2) obtain c where "c \<in> set (createdComponents s)" and "n = name (componentConfig c)"
    by (auto simp: names_on_def)
  with assms(1) show ?thesis by (auto simp: invariant_def)
qed

lemma invariant_attribute:
  assumes "invariant s" and "n \<in> set (names_on e s)"
  shows "getAttribute e s = Some (join (names_on e s)) \<and> join (names_on e s) \<noteq> [] \<and>
         sublist n (join (names_on e s))"
proof -
  from assms(1) have "getAttribute e s = None \<longrightarrow> names_on e s = []"
    and "\<forall>a. getAttribute e s = Some a \<longrightarrow> a = join (names_on e s)"
    by (simp_all add: invariant_def)
  with assms(2) have attr: "getAttribute e s = Some (join (names_on e s))"
    by (cases "getAttribute e s") auto
  have "n \<noteq> []" using assms by (rule invariant_name_nonempty)
  with assms(2) have "join (names_on e s) \<noteq> []" by (auto simp: join_eq_Nil)
  with attr sublist_join [OF assms(2)] show ?thesis by simp
qed


lemma properties_setAttribute [simp]:
  "properties (elements (setAttribute e v s) e') = properties (elements s e')"
  by (simp add: setAttribute_def)

lemma properties_setProperty [simp]:
  "properties (elements (setProperty e k v s) e') =
     (if e' = e then (properties (elements s e))(k \<mapsto> v) else properties (elements s e'))"
  by (simp add: setProperty_def)

lemma properties_deleteProperty [simp]:
  "properties (elements (deleteProperty e k s) e') =
     (if e' = e then (properties (elements s e))(k := None) else properties (elements s e'))"
  by (simp add: deleteProperty_def)

lemma registeredComponents_upgradeElementInternal [simp]:
  "registeredComponents (upgradeElementInternal e config s) = registeredComponents s"
  by (simp add: upgradeElementInternal_def Let_def)


lemma fold_preserves:
  assumes step: "\<And>x s. x \<in> set xs \<Longrightarrow> P s \<Longrightarrow> P (f x s)"
  shows "P s \<Longrightarrow> P (fold f xs s)"
  using step
proof (induction xs arbitrary: s)
  case Nil
  then show ?case by simp
next
  case (Cons x xs)
  have "P (f x s)" using Cons.prems by simp
  moreover have "\<And>y s. y \<in> set xs \<Longrightarrow> P s \<Longrightarrow> P (f y s)" using Cons.prems by simp
  ultimately show ?case using Cons.IH by simp
qed


lemma invariant_frame:
  assumes inv: "invariant s"
    and created: "createdComponents s' = createdComponents s"
    and attr: "\<And>e. upgraded (elements s' e) = upgraded (elements s e)"
    and props: "\<And>e k. properties (elements s' e) k \<noteq> None \<Longrightarrow> properties (elements s e) k \<noteq> None"
    and valid: "\<forall>r \<in> set (registeredComponents s'). name r \<noteq> [] \<and> cssClass r \<noteq> []"
    and grows: "set (registeredComponents s) \<subseteq> set (registeredComponents s')"
  shows "invariant s'"
proof -
  have names: "names_on e s' = names_on e s" for e by (simp add: names_on_def created)
  have attr': "getAttribute e s' = getAttribute e s" for e by (simp add: getAttribute_def attr)
  have i2: "\<forall>c \<in> set (createdComponents s'). componentConfig c \<in> set (registeredComponents s')"
    using inv grows by (auto simp: invariant_def created)
  have i3: "\<forall>e. distinct (names_on e s')" using inv by (simp add: invariant_def names)
  have i4: "\<forall>e. getAttribute e s' = None \<longrightarrow> names_on e s' = []"
    using inv by (simp add: invariant_def names attr')
  have i4': "\<forall>e a. getAttribute e s' = Some a \<longrightarrow> a = join (names_on e s')"
    using inv by (simp add: invariant_def names attr')
  have i5: "\<forall>e k. properties (elements s' e) k \<noteq> None \<longrightarrow> k \<in> set (names_on e s')"
  proof (intro allI impI)
    fix e k
    assume "properties (elements s' e) k \<noteq> None"
    then have "properties (elements s e) k \<noteq> None" by (rule props)
    moreover from inv
    have "properties (elements s e) k \<noteq> None \<longrightarrow> k \<in> set (names_on e s)"
      by (simp add: invariant_def)
    ultimately show "k \<in> set (names_on e s')" by (simp add: names)
  qed
  from valid i2 i3 i4 i4' i5 show ?thesis unfolding invariant_def by blast
qed










subsection \<open>Upgrades keep the attribute\<close>

text \<open>The upgrade operations never take the attribute away either.\<close>

lemma upgradeElementInternal_keeps_attribute:
  "getAttribute e s \<noteq> None \<Longrightarrow> getAttribute e (upgradeElementInternal e' config s) \<noteq> None"
  by (simp add: upgradeElementInternal_def Let_def)

lemma upgradeInternal_keeps_attribute:
  "getAttribute e s \<noteq> None \<Longrightarrow> getAttribute e (upgradeInternal config s) \<noteq> None"
  unfolding upgradeInternal_def
  by (rule fold_preserves [where P = "\<lambda>s. getAttribute e s \<noteq> None"])
     (simp_all add: upgradeElementInternal_keeps_attribute del: not_None_eq)

lemma upgradeAll_keeps_attribute:
  "getAttribute e s \<noteq> None \<Longrightarrow> getAttribute e (upgradeAll s) \<noteq> None"
  unfolding upgradeAll_def
  by (rule fold_preserves [where P = "\<lambda>s. getAttribute e s \<noteq> None"])
     (simp_all add: upgradeInternal_keeps_attribute del: not_None_eq)

lemma upgrade_keeps_attribute:
  "getAttribute e s \<noteq> None \<Longrightarrow> getAttribute e (upgrade cls s) \<noteq> None"
  unfolding upgrade_def
  by (rule fold_preserves [where P = "\<lambda>s. getAttribute e s \<noteq> None"])
     (simp_all add: upgradeInternal_keeps_attribute del: not_None_eq)

lemma upgradeElement_keeps_attribute:
  assumes "getAttribute e s \<noteq> None"
  shows "getAttribute e (upgradeElement t optionalCssClass s) \<noteq> None"
proof -
  have loop: "getAttribute e (fold (\<lambda>cssClass s'.
                     case getRegisteredByClass cssClass s' of
                       None \<Rightarrow> s'
                     | Some registeredComponent \<Rightarrow> upgradeElementInternal e' registeredComponent s')
                 classes s) \<noteq> None" for e' classes
    by (rule fold_preserves [where P = "\<lambda>s. getAttribute e s \<noteq> None"])
       (use assms in \<open>auto simp: upgradeElementInternal_keeps_attribute simp del: not_None_eq
                            split: option.splits\<close>)
  show ?thesis
    using assms loop
    by (auto simp: upgradeElement_def upgradeElementInternal_keeps_attribute
             simp del: not_None_eq split: target.splits option.splits)
qed

subsection \<open>Downgrades keep the invariant when no name contains a comma\<close>

lemma invariant_name_comma_free:
  assumes "invariant s" and "comma_free s" and "n \<in> set (names_on e s)"
  shows "CHR '','' \<notin> set n"
proof -
  from assms(3) obtain c where "c \<in> set (createdComponents s)" and "n = name (componentConfig c)"
    by (auto simp: names_on_def)
  with assms(1,2) show ?thesis by (auto simp: invariant_def comma_free_def)
qed

lemma marker_list_names_on:
  assumes inv: "invariant s" and cf: "comma_free s"
  shows "marker_list e s = names_on e s"
proof (cases "names_on e s = []")
  case True
  from inv have "\<forall>a. getAttribute e s = Some a \<longrightarrow> a = join (names_on e s)"
    by (simp add: invariant_def)
  with True have "getAttribute e s = None \<or> getAttribute e s = Some []"
    by (cases "getAttribute e s") auto
  with True show ?thesis by (auto simp: marker_list_def)
next
  case False
  then obtain n where n: "n \<in> set (names_on e s)" by (cases "names_on e s") auto
  from invariant_attribute [OF inv n]
  have attr: "getAttribute e s = Some (join (names_on e s))" and ne: "join (names_on e s) \<noteq> []"
    by simp_all
  have "\<forall>w \<in> set (names_on e s). CHR '','' \<notin> set w"
    using invariant_name_comma_free [OF inv cf] by blast
  with False have "split (join (names_on e s)) = names_on e s" by (rule split_join)
  with attr ne show ?thesis by (simp add: marker_list_def)
qed

lemma remove_created_names:
  "map (\<lambda>c. name (componentConfig c)) (filter (\<lambda>c. element c = e') (remove_created e n cs)) =
     (if e' = e then remove1 n (map (\<lambda>c. name (componentConfig c)) (filter (\<lambda>c. element c = e) cs))
      else map (\<lambda>c. name (componentConfig c)) (filter (\<lambda>c. element c = e') cs))"
  by (induction cs) auto

lemma set_remove_created: "set (remove_created e n cs) \<subseteq> set cs"
  by (induction cs) auto

lemma registeredComponents_downgradeElementInternal [simp]:
  "registeredComponents (state_of (downgradeElementInternal e n s)) = registeredComponents s"
  by (simp add: downgradeElementInternal_def Let_def split: option.splits)

lemma comma_free_downgradeElementInternal:
  "comma_free s \<Longrightarrow> comma_free (state_of (downgradeElementInternal e n s))"
  by (simp add: comma_free_def)

text \<open>
  A downgrade of a non-empty name, on an element that carries the attribute, returns; the
  invariant holds afterwards, and the name is no longer among the element's instances.
\<close>

lemma downgradeElementInternal_invariant:
  assumes inv: "invariant s" and cf: "comma_free s" and n: "n \<noteq> []"
    and present: "getAttribute e s = Some a"
  shows "returns (downgradeElementInternal e n s) \<and>
         invariant (state_of (downgradeElementInternal e n s)) \<and>
         names_on e (state_of (downgradeElementInternal e n s)) = remove1 n (names_on e s) \<and>
         (\<forall>e'. e' \<noteq> e \<longrightarrow> names_on e' (state_of (downgradeElementInternal e n s)) = names_on e' s) \<and>
         createdComponents (state_of (downgradeElementInternal e n s)) =
           (if n \<in> set (names_on e s) then remove_created e n (createdComponents s)
            else createdComponents s)"
proof (cases "n \<in> set (split a)")
  case False
  have ml: "marker_list e s = names_on e s" using inv cf by (rule marker_list_names_on)
  have "n \<notin> set (names_on e s)"
  proof (cases "a = []")
    case True
    with ml present show ?thesis by (simp add: marker_list_def)
  next
    case nonempty: False
    with ml present False show ?thesis by (simp add: marker_list_def)
  qed
  with False inv show ?thesis
    by (simp add: downgradeElementInternal_present [OF present] remove1_idem)
next
  case True
  have "a \<noteq> []" using True n by auto
  with marker_list_names_on [OF inv cf, of e] present
  have sp: "split a = names_on e s" by (simp add: marker_list_def)
  with True have rec: "n \<in> set (names_on e s)" by simp
  let ?s' = "deleteProperty e n
               ((setAttribute e (join (remove1 n (split a))) s)
                  \<lparr>createdComponents := remove_created e n (createdComponents s)\<rparr>)"
  have s': "downgradeElementInternal e n s = Normal ?s'"
    using True by (simp add: downgradeElementInternal_present [OF present])
  have names: "names_on e' ?s' = (if e' = e then remove1 n (names_on e s) else names_on e' s)" for e'
    by (simp add: names_on_def remove_created_names)
  have attr: "getAttribute e' ?s' = (if e' = e then Some (join (remove1 n (names_on e s)))
                                     else getAttribute e' s)" for e'
    by (simp add: sp)
  have dist: "distinct (names_on e' s)" for e' using inv by (simp add: invariant_def)
  have i1: "\<forall>r \<in> set (registeredComponents ?s'). name r \<noteq> [] \<and> cssClass r \<noteq> []"
    using inv by (simp add: invariant_def)
  have i2: "\<forall>c \<in> set (createdComponents ?s'). componentConfig c \<in> set (registeredComponents ?s')"
    using inv set_remove_created [of e n "createdComponents s"] by (auto simp: invariant_def)
  have i3: "\<forall>e'. distinct (names_on e' ?s')" unfolding names using dist by simp
  have i4: "\<forall>e'. getAttribute e' ?s' = None \<longrightarrow> names_on e' ?s' = []"
    unfolding names attr using inv by (simp add: invariant_def)
  have i4': "\<forall>e' b. getAttribute e' ?s' = Some b \<longrightarrow> b = join (names_on e' ?s')"
    unfolding names attr using inv by (simp add: invariant_def)
  have i5: "\<forall>e' k. properties (elements ?s' e') k \<noteq> None \<longrightarrow> k \<in> set (names_on e' ?s')"
  proof (intro allI impI)
    fix e' k
    assume stored: "properties (elements ?s' e') k \<noteq> None"
    from inv have old: "properties (elements s e') k \<noteq> None \<longrightarrow> k \<in> set (names_on e' s)"
      by (simp add: invariant_def)
    from stored old show "k \<in> set (names_on e' ?s')"
      unfolding names by (auto split: if_splits)
  qed
  have "invariant ?s'" using i1 i2 i3 i4 i4' i5 unfolding invariant_def by blast
  moreover have "createdComponents ?s' = remove_created e n (createdComponents s)" by simp
  ultimately show ?thesis unfolding s' state_of.simps returns.simps using names rec by simp
qed

subsection \<open>Every downgrade operation keeps the invariant\<close>

lemma remove_created_absent:
  "n \<notin> set (map (\<lambda>c. name (componentConfig c)) (filter (\<lambda>c. element c = e) cs)) \<Longrightarrow>
   remove_created e n cs = cs"
  by (induction cs) (auto split: if_splits)

lemma downgradeElementInternal_empty_name:
  assumes inv: "invariant s" and cf: "comma_free s"
  shows "invariant (state_of (downgradeElementInternal e [] s))"
proof (cases "getAttribute e s")
  case None
  with inv show ?thesis by (simp add: downgradeElementInternal_absent)
next
  case (Some a)
  have absent: "[] \<notin> set (names_on e s)"
    using invariant_name_nonempty [OF inv] by blast
  show ?thesis
  proof (cases "[] \<in> set (split a)")
    case False
    with inv show ?thesis by (simp add: downgradeElementInternal_present [OF Some])
  next
    case True
    have a: "a = []"
    proof (rule ccontr)
      assume "a \<noteq> []"
      with marker_list_names_on [OF inv cf, of e] Some have "split a = names_on e s"
        by (simp add: marker_list_def)
      with True absent show False by simp
    qed
    let ?s' = "deleteProperty e []
               ((setAttribute e (join (remove1 [] (split a))) s)
                  \<lparr>createdComponents := remove_created e [] (createdComponents s)\<rparr>)"
    have created: "remove_created e [] (createdComponents s) = createdComponents s"
      using absent by (intro remove_created_absent) (simp add: names_on_def)
    have "invariant ?s'"
    proof (rule invariant_frame [OF inv])
      show "createdComponents ?s' = createdComponents s" by (simp add: created)
      show "upgraded (elements ?s' e') = upgraded (elements s e')" for e'
        using Some a by (simp add: deleteProperty_def setAttribute_def getAttribute_def)
      show "properties (elements ?s' e') k \<noteq> None \<Longrightarrow> properties (elements s e') k \<noteq> None" for e' k
        by (simp add: deleteProperty_def setAttribute_def split: if_splits)
      show "\<forall>r \<in> set (registeredComponents ?s'). name r \<noteq> [] \<and> cssClass r \<noteq> []"
        using inv by (simp add: invariant_def)
      show "set (registeredComponents s) \<subseteq> set (registeredComponents ?s')" by simp
    qed
    with True show ?thesis by (simp add: downgradeElementInternal_present [OF Some])
  qed
qed

lemma invariant_downgradeElementInternal:
  assumes inv: "invariant s" and cf: "comma_free s"
  shows "invariant (state_of (downgradeElementInternal e n s)) \<and>
         comma_free (state_of (downgradeElementInternal e n s))"
proof -
  have "invariant (state_of (downgradeElementInternal e n s))"
  proof (cases "n = []")
    case True
    with downgradeElementInternal_empty_name [OF inv cf] show ?thesis by simp
  next
    case False
    show ?thesis
    proof (cases "getAttribute e s")
      case None
      with inv show ?thesis by (simp add: downgradeElementInternal_absent)
    next
      case (Some a)
      from downgradeElementInternal_invariant [OF inv cf False Some] show ?thesis by simp
    qed
  qed
  with comma_free_downgradeElementInternal [OF cf] show ?thesis by simp
qed

lemma invariant_downgradeElement:
  assumes "invariant s" and "comma_free s"
  shows "invariant (state_of (downgradeElement t optionalCssClass s)) \<and>
         comma_free (state_of (downgradeElement t optionalCssClass s))"
proof -
  let ?P = "\<lambda>s. invariant s \<and> comma_free s"
  have loop: "?P (state_of (forEach (downgradeElementInternal e) ns s))" for e ns
    by (rule forEach_preserves [where P = ?P]) (use assms in \<open>simp_all add: invariant_downgradeElementInternal\<close>)
  show ?thesis
    using assms loop invariant_downgradeElementInternal [OF assms]
    by (auto simp: downgradeElement_def Let_def split: target.splits option.splits)
qed

lemma invariant_downgrade:
  assumes "invariant s" and "comma_free s"
  shows "invariant (state_of (downgrade cls s)) \<and> comma_free (state_of (downgrade cls s))"
proof -
  let ?P = "\<lambda>s. invariant s \<and> comma_free s"
  have loop: "?P (state_of (forEach (\<lambda>e. downgradeElementInternal e n) es s))" for n es
    by (rule forEach_preserves [where P = ?P]) (use assms in \<open>simp_all add: invariant_downgradeElementInternal\<close>)
  have loop': "?P (state_of (forEach downgradeElementInternal_undefined es s))" for es
    by (rule forEach_preserves [where P = ?P]) (use assms in simp_all)
  show ?thesis
    using assms loop loop' by (simp add: downgrade_def split: option.splits)
qed

lemma invariant_downgradeAll:
  assumes "invariant s" and "comma_free s"
  shows "invariant (state_of (downgradeAll s)) \<and> comma_free (state_of (downgradeAll s))"
  unfolding downgradeAll_def
  by (rule downgradeAll_loop_preserves [where P = "\<lambda>s. invariant s \<and> comma_free s"])
     (use assms in \<open>simp_all add: invariant_downgradeElementInternal\<close>)

subsection \<open>Draining the instance table\<close>







subsection \<open>One pair: upgrade twice, upgrade then downgrade\<close>













text \<open>
  Why the amended C1 asks for comma-free names: with the name \<open>Tabs,Panels\<close> the two
  upgrades leave one instance, but the marker list is \<open>Tabs\<close>, \<open>Panels\<close> and holds no
  occurrence of the name.
\<close>

lemma upgrade_twice_comma_name:
  "length (instances_of 0 ''Tabs,Panels''
     (upgradeElementInternal 0 tabs_config (upgradeElementInternal 0 tabs_config
        (state_of (register TabsPanels (page (\<lambda>e. if e = 0 then [''tabs''] else []) [0])))))) = 1 \<and>
   marker_list 0
     (upgradeElementInternal 0 tabs_config (upgradeElementInternal 0 tabs_config
        (state_of (register TabsPanels (page (\<lambda>e. if e = 0 then [''tabs''] else []) [0]))))) =
     [''Tabs'', ''Panels'']"
  by (simp add: tabs_config_def TabsPanels_def instances_of_def eval_defs)






end
